theory Spec2Isabelle
  imports Main "HOL-Library.AList"
begin

section \<open>Python values, strings and integers\<close>

text \<open>
  The registry loader of \<^verbatim>\<open>vkapi/vkapi.py\<close> is embedded function by function.
  Exceptions are values of \<open>error\<close>; a function that can raise returns \<open>error + 'a\<close>
  with \<open>Inl\<close> for the exception.  \<open>NoneName\<close> marks the one situation the embedding
  does not follow: an XML element that lacks the attribute or text that names the entity,
  where Python would go on with \<^verbatim>\<open>None\<close> as the name.
  Strings are lists of 8-bit characters, read as code points below 256.
\<close>

datatype error =
  KeyError | AttributeError | ValueError | TypeError | IndexError | AssertionError | NoneName

text \<open>\<^verbatim>\<open>str.strip()\<close>: the white space characters below code point 256.\<close>

definition is_space :: "char \<Rightarrow> bool" where
  "is_space c = (let n = (of_char c :: nat) in
     (9 \<le> n \<and> n \<le> 13) \<or> (28 \<le> n \<and> n \<le> 32) \<or> n = 133 \<or> n = 160)"

definition strip :: "string \<Rightarrow> string" where
  "strip s = rev (dropWhile is_space (rev (dropWhile is_space s)))"

definition startswith :: "string \<Rightarrow> string \<Rightarrow> bool" where
  "startswith s p = (take (length p) s = p)"

text \<open>\<^verbatim>\<open>s.split(',')\<close> for a one-character separator: never empty, \<^verbatim>\<open>''.split(',') == ['']\<close>.\<close>

fun split :: "char \<Rightarrow> string \<Rightarrow> string list" where
  "split sep [] = [[]]"
| "split sep (c # cs) =
     (if c = sep then [] # split sep cs
      else (case split sep cs of [] \<Rightarrow> [[c]] | w # ws \<Rightarrow> (c # w) # ws))"

text \<open>\<^verbatim>\<open>[x for x in s.split(',') if x]\<close>\<close>

definition split_nonempty :: "string \<Rightarrow> string list" where
  "split_nonempty s = filter (\<lambda>x. x \<noteq> []) (split (CHR '','') s)"

text \<open>\<^verbatim>\<open>a in b\<close> for two strings: \<open>a\<close> occurs in \<open>b\<close> as a contiguous piece.\<close>

fun str_in :: "string \<Rightarrow> string \<Rightarrow> bool" where
  "str_in a [] = (a = [])"
| "str_in a (c # cs) = (take (length a) (c # cs) = a \<or> str_in a cs)"

text \<open>
  \<^verbatim>\<open>int(s, base)\<close> for base 10 and base 16: surrounding white space is dropped, one sign
  is allowed, base 16 allows the prefix \<^verbatim>\<open>0x\<close>, and single underscores may separate
  digits.  \<open>None\<close> is Python's \<^verbatim>\<open>ValueError\<close>.
\<close>

definition digit_of :: "char \<Rightarrow> nat option" where
  "digit_of c = (let n = (of_char c :: nat) in
     if 48 \<le> n \<and> n \<le> 57 then Some (n - 48)
     else if 97 \<le> n \<and> n \<le> 122 then Some (n - 87)
     else if 65 \<le> n \<and> n \<le> 90 then Some (n - 55)
     else None)"

text \<open>
  \<open>digits base acc after_digit s\<close> reads the rest of a literal; \<open>after_digit\<close> tells
  whether the previous character was a digit (an underscore needs a digit on both sides).
\<close>

fun digits :: "nat \<Rightarrow> nat \<Rightarrow> bool \<Rightarrow> string \<Rightarrow> nat option" where
  "digits base acc after_digit [] = (if after_digit then Some acc else None)"
| "digits base acc after_digit (c # cs) =
     (if c = CHR ''_'' then (if after_digit then digits base acc False cs else None)
      else (case digit_of c of
              None \<Rightarrow> None
            | Some d \<Rightarrow> if d < base then digits base (acc * base + d) True cs else None))"

definition unsigned_literal :: "nat \<Rightarrow> string \<Rightarrow> nat option" where
  "unsigned_literal base s =
     (if base = 16 \<and> (startswith s ''0x'' \<or> startswith s ''0X'')
      then (case drop 2 s of
              c # cs \<Rightarrow> if c = CHR ''_'' then digits base 0 False cs else digits base 0 False (c # cs)
            | [] \<Rightarrow> None)
      else digits base 0 False s)"

definition py_int :: "nat \<Rightarrow> string \<Rightarrow> int option" where
  "py_int base s =
     (case strip s of
        [] \<Rightarrow> None
      | c # cs \<Rightarrow>
          if c = CHR ''-'' then map_option (\<lambda>n. - int n) (unsigned_literal base cs)
          else if c = CHR ''+'' then map_option int (unsigned_literal base cs)
          else map_option int (unsigned_literal base (c # cs)))"

text \<open>\<^verbatim>\<open>int(x)\<close> of an attribute that may be missing: \<^verbatim>\<open>int(None)\<close> is a \<^verbatim>\<open>TypeError\<close>.\<close>

definition int_of_attr :: "nat \<Rightarrow> string option \<Rightarrow> error + int" where
  "int_of_attr base a =
     (case a of
        None \<Rightarrow> Inl TypeError
      | Some s \<Rightarrow> (case py_int base s of None \<Rightarrow> Inl ValueError | Some i \<Rightarrow> Inr i))"

text \<open>\<^verbatim>\<open>1 << n\<close>: a negative shift count is a \<^verbatim>\<open>ValueError\<close>.\<close>

definition shl1 :: "int \<Rightarrow> error + int" where
  "shl1 n = (if n < 0 then Inl ValueError else Inr (push_bit (nat n) 1))"

section \<open>XML elements\<close>

text \<open>
  An \<^verbatim>\<open>xml.etree.ElementTree.Element\<close>: tag, attributes, the text before the first
  child, the text after the closing tag, and the children in document order.
\<close>

datatype element =
  Element (tag: string) (attrib: "(string \<times> string) list")
          (etext: "string option") (tail: "string option") (children: "element list")

definition get :: "element \<Rightarrow> string \<Rightarrow> string option" where
  "get e k = map_of (attrib e) k"

definition get_default :: "element \<Rightarrow> string \<Rightarrow> string \<Rightarrow> string" where
  "get_default e k d = (case get e k of None \<Rightarrow> d | Some v \<Rightarrow> v)"

definition findall :: "element \<Rightarrow> string \<Rightarrow> element list" where
  "findall e t = filter (\<lambda>c. tag c = t) (children e)"

definition find :: "element \<Rightarrow> string \<Rightarrow> element option" where
  "find e t = (case findall e t of [] \<Rightarrow> None | c # _ \<Rightarrow> Some c)"

text \<open>\<^verbatim>\<open>e.find('a/b')\<close>: the first \<open>b\<close> child of an \<open>a\<close> child, in document order.\<close>

definition find2 :: "element \<Rightarrow> string \<Rightarrow> string \<Rightarrow> element option" where
  "find2 e a b = (case concat (map (\<lambda>c. findall c b) (findall e a)) of
                    [] \<Rightarrow> None | c # _ \<Rightarrow> Some c)"

section \<open>The object graph\<close>

text \<open>
  Objects live in a store and are referred to by address, so that two names bound to the
  same object can be told from two equal objects.  A reference held in a field is
  \<^verbatim>\<open>None\<close>, a plain string (a name not yet replaced by its object), a \<^verbatim>\<open>TypeRef\<close>
  placeholder (never shared, so kept in place), or the address of an object.
\<close>

type_synonym addr = nat

datatype pyref = PyNone | PyStr string | TypeRef string | Ref addr

text \<open>The payload of an \<^verbatim>\<open>EnumValue\<close>: a decoded integer, or the raw attribute text.\<close>

datatype pyval = IntV int | StrV string

text \<open>
  The \<^verbatim>\<open>TypeModifier\<close> chain of a field, outermost modifier first.  The chain is built
  fresh for every field and owned by it.
\<close>

datatype vtype =
    Leaf pyref
  | FixedArray (base_type: vtype) (is_const: bool) (array_length: pyval)
  | DynamicArray (base_type: vtype) (is_const: bool) (dyn_length: string) (dyn_parent: addr)
  | NextPtr (base_type: vtype) (is_const: bool)
  | Pointer (base_type: vtype) (is_const: bool)

record field =
  field_name :: string
  field_type :: vtype
  is_optional :: bool
  is_output :: bool
  bit_size :: "int option"
  field_values :: "string list"

text \<open>
  The classes of the registry.  Every subclass of \<^verbatim>\<open>Type\<close> has \<open>name\<close> and
  \<open>extensions\<close> (the \<^verbatim>\<open>Extension\<close> objects that list it); \<^verbatim>\<open>xml_node\<close> is left out.
  Of an \<^verbatim>\<open>Extension\<close> only the fields read by the embedded functions are kept.
\<close>

datatype obj =
    TypeAlias (name: string) (extensions: "addr list") (ta_alias: pyref)
  | BaseType (name: string) (extensions: "addr list")
  | FunctionPtr (name: string) (extensions: "addr list")
  | Handle (name: string) (extensions: "addr list") (is_dispatchable: bool) (parent: pyref)
  | EnumValue (name: string) (extensions: "addr list") (val: pyval) (comment: "string option")
  | Enum (name: string) (extensions: "addr list") (enum_values: "(string \<times> addr) list")
         (is_bitmask: bool) (bitwidth: int)
  | Bitmask (name: string) (extensions: "addr list") (bitmask_type: "string option") (flags: pyref)
  | Struct (name: string) (extensions: "addr list") (is_union: bool) (members: "field list")
           (extendedby: "addr list") (structextends: "pyref list")
  | Define (name: string) (extensions: "addr list")
  | Command (name: string) (extensions: "addr list") (return_type: addr)
            (parameters: "field list") (successcodes: "string list") (feature: "string option")
  | Extension (name: string) (number: int) (author: string) (supported: string)
              (platform: string)

type_synonym heap = "obj list"

definition lookup :: "heap \<Rightarrow> addr \<Rightarrow> obj option" where
  "lookup h a = (if a < length h then Some (h ! a) else None)"

text \<open>A new object gets the next free address.\<close>

definition alloc :: "heap \<Rightarrow> obj \<Rightarrow> heap \<times> addr" where
  "alloc h ob = (h @ [ob], length h)"

text \<open>
  A Python \<^verbatim>\<open>dict\<close> with string keys is an association list in insertion order:
  \<open>map_of\<close> reads, \<open>AList.update\<close> is \<^verbatim>\<open>d[k] = v\<close> (a new key goes last, an old key
  keeps its place), \<open>AList.delete\<close> is \<^verbatim>\<open>del d[k]\<close>.
\<close>

type_synonym 'v dict = "(string \<times> 'v) list"

record registry =
  reg_types :: "addr dict"
  reg_commands :: "addr dict"
  reg_extensions :: "addr dict"
  reg_aliases :: "pyref dict"
  reg_platforms :: "pyref dict"
  reg_constants :: "addr dict"

section \<open>TypeAlias\<close>

text \<open>
  \<^verbatim>\<open>while isinstance(ta, TypeAlias): ta = ta.alias\<close>, the loop of both
  \<^verbatim>\<open>resolve_type\<close> and \<^verbatim>\<open>is_base_type_alias\<close>.  A cycle of aliases keeps it running
  for ever: the result \<open>None\<close>.
\<close>

definition isinstance_TypeAlias :: "heap \<Rightarrow> pyref \<Rightarrow> bool" where
  "isinstance_TypeAlias h r =
     (case r of Ref a \<Rightarrow> (case lookup h a of Some ob \<Rightarrow> is_TypeAlias ob | None \<Rightarrow> False)
              | _ \<Rightarrow> False)"

definition isinstance_BaseType :: "heap \<Rightarrow> pyref \<Rightarrow> bool" where
  "isinstance_BaseType h r =
     (case r of Ref a \<Rightarrow> (case lookup h a of Some ob \<Rightarrow> is_BaseType ob | None \<Rightarrow> False)
              | _ \<Rightarrow> False)"

definition alias_of :: "heap \<Rightarrow> pyref \<Rightarrow> pyref" where
  "alias_of h r = (case r of Ref a \<Rightarrow> ta_alias (h ! a) | _ \<Rightarrow> PyNone)"

partial_function (option) alias_loop :: "heap \<Rightarrow> pyref \<Rightarrow> pyref option" where
  "alias_loop h ta =
     (if isinstance_TypeAlias h ta then alias_loop h (alias_of h ta) else Some ta)"

text \<open>\<^verbatim>\<open>TypeAlias.resolve_type(self)\<close>, for the alias object at address \<open>self\<close>.\<close>

definition resolve_type :: "heap \<Rightarrow> addr \<Rightarrow> pyref option" where
  "resolve_type h self = alias_loop h (Ref self)"

text \<open>\<^verbatim>\<open>TypeAlias.is_base_type_alias\<close>, for the alias object at address \<open>self\<close>.\<close>

definition is_base_type_alias :: "heap \<Rightarrow> addr \<Rightarrow> bool option" where
  "is_base_type_alias h self =
     map_option (isinstance_BaseType h) (alias_loop h (alias_of h (Ref self)))"

section \<open>Handle\<close>

text \<open>
  \<^verbatim>\<open>Handle.is_instance_handle\<close>, read on the value \<open>r\<close>.  The last line reads the
  property on \<^verbatim>\<open>self.parent\<close>, whatever that is: anything but a \<^verbatim>\<open>Handle\<close> has no
  such attribute.  A cycle of parents never returns.
\<close>

partial_function (option) is_instance_handle :: "heap \<Rightarrow> pyref \<Rightarrow> (error + bool) option" where
  "is_instance_handle h r =
     (case r of
        Ref a \<Rightarrow>
          (case lookup h a of
             Some (Handle n x d p) \<Rightarrow>
               if n = ''VkDevice'' then Some (Inr False)
               else if n = ''VkInstance'' then Some (Inr True)
               else if n = ''VkSwapchainKHR'' then Some (Inr False)
               else is_instance_handle h p
           | _ \<Rightarrow> Some (Inl AttributeError))
      | _ \<Rightarrow> Some (Inl AttributeError))"

definition is_device_handle :: "heap \<Rightarrow> pyref \<Rightarrow> (error + bool) option" where
  "is_device_handle h r = map_option (map_sum id Not) (is_instance_handle h r)"

declare alias_loop.simps [code]
declare is_instance_handle.simps [code]

section \<open>Enum\<close>

text \<open>
  The \<^verbatim>\<open>try\<close> block of \<^verbatim>\<open>Enum.__init__\<close> for one \<^verbatim>\<open><enum>\<close> element without
  \<^verbatim>\<open>alias\<close>: whether \<^verbatim>\<open>bitpos\<close> was present, and the payload.  A \<^verbatim>\<open>ValueError\<close> of
  \<^verbatim>\<open>int\<close> or of the shift is caught and leaves the raw attribute text; a missing
  \<^verbatim>\<open>value\<close> fails on \<^verbatim>\<open>None.startswith\<close>, which is not caught.
\<close>

definition decode_enum_value :: "element \<Rightarrow> error + (bool \<times> pyval)" where
  "decode_enum_value ee =
     (case get ee ''bitpos'' of
        Some str_v \<Rightarrow>
          (case (if startswith str_v ''0x'' then py_int 16 str_v else py_int 10 str_v) of
             None \<Rightarrow> Inr (True, StrV str_v)
           | Some n \<Rightarrow>
               (case shl1 n of Inl e \<Rightarrow> Inr (True, StrV str_v) | Inr v \<Rightarrow> Inr (True, IntV v)))
      | None \<Rightarrow>
          (case get ee ''value'' of
             None \<Rightarrow> Inl AttributeError
           | Some str_v \<Rightarrow>
               (case (if startswith str_v ''0x'' then py_int 16 str_v else py_int 10 str_v) of
                  None \<Rightarrow> Inr (False, StrV str_v)
                | Some n \<Rightarrow> Inr (False, IntV n))))"

text \<open>
  The loop over \<^verbatim>\<open>te.findall('enum')\<close>: the store, \<^verbatim>\<open>self.values\<close> and
  \<^verbatim>\<open>self.is_bitmask\<close> so far.
\<close>

fun enum_loop ::
  "heap \<Rightarrow> addr dict \<Rightarrow> bool \<Rightarrow> element list \<Rightarrow> error + (heap \<times> addr dict \<times> bool)" where
  "enum_loop h vals bm [] = Inr (h, vals, bm)"
| "enum_loop h vals bm (ee # ees) =
     (case get ee ''name'' of
        None \<Rightarrow> Inl NoneName
      | Some en \<Rightarrow>
          (case get ee ''alias'' of
             Some al \<Rightarrow>
               (case alloc h (TypeAlias en [] (PyStr al)) of
                  (h', a) \<Rightarrow> enum_loop h' (AList.update en a vals) bm ees)
           | None \<Rightarrow>
               (case decode_enum_value ee of
                  Inl e \<Rightarrow> Inl e
                | Inr (bp, ev) \<Rightarrow>
                    (case alloc h (EnumValue en [] ev (get ee ''comment'')) of
                       (h', a) \<Rightarrow> enum_loop h' (AList.update en a vals) (bm \<or> bp) ees))))"

text \<open>
  \<^verbatim>\<open>Enum.__init__(self, te)\<close> for an element \<open>te\<close> (the branch \<^verbatim>\<open>te is None\<close> is not
  used by the loader).  The new \<^verbatim>\<open>Enum\<close> is stored once its values are known.
\<close>

definition Enum_init :: "heap \<Rightarrow> element \<Rightarrow> error + (heap \<times> addr)" where
  "Enum_init h te =
     (case get te ''name'' of
        None \<Rightarrow> Inl NoneName
      | Some n \<Rightarrow>
          (case (case get te ''bitwidth'' of
                   None \<Rightarrow> Inr 32
                 | Some b \<Rightarrow> if b = [] then Inr 32 else int_of_attr 10 (Some b)) of
             Inl e \<Rightarrow> Inl e
           | Inr bw \<Rightarrow>
               (case enum_loop h [] (get te ''type'' = Some ''bitmask'') (findall te ''enum'') of
                  Inl e \<Rightarrow> Inl e
                | Inr (h', vals, bm) \<Rightarrow> Inr (alloc h' (Enum n [] vals bm bw)))))"

text \<open>\<^verbatim>\<open>r.value\<close> for the result \<open>r\<close> of \<^verbatim>\<open>resolve_type\<close>.\<close>

definition value_attr :: "heap \<Rightarrow> pyref \<Rightarrow> error + pyval" where
  "value_attr h r =
     (case r of
        Ref a \<Rightarrow> (case lookup h a of Some (EnumValue n x pv c) \<Rightarrow> Inr pv | _ \<Rightarrow> Inl AttributeError)
      | _ \<Rightarrow> Inl AttributeError)"

text \<open>\<^verbatim>\<open>Enum.get_integer_values\<close>: the loop over \<^verbatim>\<open>self.values.values()\<close>.\<close>

fun integer_values_loop :: "heap \<Rightarrow> pyval dict \<Rightarrow> addr list \<Rightarrow> (error + pyval dict) option" where
  "integer_values_loop h iv [] = Some (Inr iv)"
| "integer_values_loop h iv (v # vs) =
     (case lookup h v of
        Some (EnumValue n x pv c) \<Rightarrow> integer_values_loop h (AList.update n pv iv) vs
      | Some (TypeAlias n x al) \<Rightarrow>
          (case resolve_type h v of
             None \<Rightarrow> None
           | Some r \<Rightarrow>
               (case value_attr h r of
                  Inl e \<Rightarrow> Some (Inl e)
                | Inr pv \<Rightarrow> integer_values_loop h (AList.update n pv iv) vs))
      | _ \<Rightarrow> Some (Inl AttributeError))"

definition get_integer_values :: "heap \<Rightarrow> addr \<Rightarrow> (error + pyval dict) option" where
  "get_integer_values h self =
     (case lookup h self of
        Some (Enum n x vals bm bw) \<Rightarrow> integer_values_loop h [] (map snd vals)
      | _ \<Rightarrow> Some (Inl AttributeError))"

section \<open>Enum values added by extensions and features\<close>

text \<open>\<^verbatim>\<open>enum.values[ev.name] = ev\<close> for a new object \<open>ob\<close> named \<open>k\<close>.\<close>

definition set_enum_value :: "heap \<Rightarrow> addr \<Rightarrow> string \<Rightarrow> obj \<Rightarrow> error + (heap \<times> addr)" where
  "set_enum_value h enum k ob =
     (case lookup h enum of
        Some (Enum n x vals bm bw) \<Rightarrow>
          (case alloc h ob of
             (h', ev) \<Rightarrow> Inr (h'[enum := Enum n x (AList.update k ev vals) bm bw], ev))
      | _ \<Rightarrow> Inl AttributeError)"

text \<open>The three ways \<^verbatim>\<open>parse_enum_extend\<close> computes \<^verbatim>\<open>value\<close>.\<close>

definition extend_value :: "heap \<Rightarrow> addr \<Rightarrow> element \<Rightarrow> int \<Rightarrow> error + int" where
  "extend_value h enum ee extnumber =
     (case get ee ''value'' of
        Some v \<Rightarrow> int_of_attr 10 (Some v)
      | None \<Rightarrow>
          (case lookup h enum of
             Some (Enum n x vals bm bw) \<Rightarrow>
               if bm then
                 (case int_of_attr 10 (get ee ''bitpos'') of Inl e \<Rightarrow> Inl e | Inr b \<Rightarrow> shl1 b)
               else
                 (case int_of_attr 10 (get ee ''offset'') of
                    Inl e \<Rightarrow> Inl e
                  | Inr offset \<Rightarrow> Inr (1000000000 + (extnumber - 1) * 1000 + offset))
           | _ \<Rightarrow> Inl AttributeError))"

text \<open>
  \<^verbatim>\<open>parse_enum_extend(registry, ee, extnumber)\<close>; of the registry it reads \<open>types\<close>.
  It returns the new store and the address of the new value.
\<close>

definition parse_enum_extend :: "heap \<Rightarrow> addr dict \<Rightarrow> element \<Rightarrow> int \<Rightarrow> error + (heap \<times> addr)" where
  "parse_enum_extend h types ee extnumber =
     (case get ee ''name'' of
        None \<Rightarrow> Inl NoneName
      | Some nm \<Rightarrow>
          (case Option.bind (get ee ''extends'') (map_of types) of
             None \<Rightarrow> Inl KeyError
           | Some enum \<Rightarrow>
               (case get ee ''alias'' of
                  Some al \<Rightarrow> set_enum_value h enum nm (TypeAlias nm [] (PyStr al))
                | None \<Rightarrow>
                    (case extend_value h enum ee extnumber of
                       Inl e \<Rightarrow> Inl e
                     | Inr v \<Rightarrow>
                         set_enum_value h enum nm
                           (EnumValue nm [] (IntV v) (get ee ''comment''))))))"

text \<open>
  The last loop of \<^verbatim>\<open>Registry.__parse_features\<close> for one enum: every alias among
  its values, still holding the aliased name, is pointed at the value of that name.
\<close>

fun resolve_value_aliases :: "heap \<Rightarrow> addr dict \<Rightarrow> addr list \<Rightarrow> error + heap" where
  "resolve_value_aliases h vals [] = Inr h"
| "resolve_value_aliases h vals (ev # evs) =
     (case lookup h ev of
        Some (TypeAlias n x al) \<Rightarrow>
          (case al of
             PyStr s \<Rightarrow>
               (case map_of vals s of
                  None \<Rightarrow> Inl KeyError
                | Some t \<Rightarrow> resolve_value_aliases (h[ev := TypeAlias n x (Ref t)]) vals evs)
           | _ \<Rightarrow> Inl KeyError)
      | _ \<Rightarrow> resolve_value_aliases h vals evs)"

section \<open>Type modifiers of a member or parameter\<close>

record pointer_level =
  pl_is_const :: bool
  pl_is_fixed_array :: bool
  pl_length :: "string option"

text \<open>
  One match of \<^verbatim>\<open>\bstruct\b|\bconst\b|\*|\[|:\<close> at the start of the string.  A
  word boundary after \<^verbatim>\<open>struct\<close> or \<^verbatim>\<open>const\<close> needs the end of the string or a
  character that is no word character; a word character beyond ASCII could not start a
  token either, so the ASCII letters, digits and the underscore decide.
\<close>

definition is_word_char :: "char \<Rightarrow> bool" where
  "is_word_char c = (let n = (of_char c :: nat) in
     (48 \<le> n \<and> n \<le> 57) \<or> (65 \<le> n \<and> n \<le> 90) \<or> (97 \<le> n \<and> n \<le> 122) \<or> n = 95)"

definition is_digit :: "char \<Rightarrow> bool" where
  "is_digit c = (let n = (of_char c :: nat) in 48 \<le> n \<and> n \<le> 57)"

definition starts_word :: "string \<Rightarrow> string \<Rightarrow> bool" where
  "starts_word w s =
     (startswith s w \<and> (case drop (length w) s of [] \<Rightarrow> True | c # _ \<Rightarrow> \<not> is_word_char c))"

definition match_token :: "string \<Rightarrow> string option" where
  "match_token s =
     (if starts_word ''struct'' s then Some ''struct''
      else if starts_word ''const'' s then Some ''const''
      else if startswith s ''*'' then Some ''*''
      else if startswith s ''['' then Some ''[''
      else if startswith s '':'' then Some '':''
      else None)"

lemma length_strip_le: "length (strip s) \<le> length s"
proof -
  have "length (dropWhile is_space (rev (dropWhile is_space s))) \<le> length (rev (dropWhile is_space s))"
    by (rule length_dropWhile_le)
  also have "\<dots> \<le> length s"
    by (simp add: length_dropWhile_le)
  finally show ?thesis by (simp add: strip_def)
qed

lemma match_token_nonempty: "match_token s = Some tok \<Longrightarrow> tok \<noteq> []"
  by (auto simp: match_token_def split: if_splits)

lemma length_strip_drop_less: "s \<noteq> [] \<Longrightarrow> 0 < n \<Longrightarrow> length (strip (drop n s)) < length s"
proof -
  assume "s \<noteq> []" "0 < n"
  then have "length (drop n s) < length s" by simp
  with length_strip_le [of "drop n s"] show ?thesis by linarith
qed

text \<open>
  The \<^verbatim>\<open>while len(type_str) > 0\<close> loop of \<^verbatim>\<open>_parse_type_modifiers\<close>: the rest of
  the declarator, the pending \<^verbatim>\<open>is_const\<close>, the levels and the bit-field width so far.
  No match is \<^verbatim>\<open>None.group\<close>; a missing array length or width is \<^verbatim>\<open>None[0]\<close>.
\<close>

function modifiers_loop ::
  "string \<Rightarrow> bool \<Rightarrow> pointer_level list \<Rightarrow> int option \<Rightarrow> error + (pointer_level list \<times> int option)"
where
  "modifiers_loop type_str is_c pls bits =
     (if type_str = [] then Inr (pls, bits)
      else
        (case match_token type_str of
           None \<Rightarrow> Inl AttributeError
         | Some tok \<Rightarrow>
             if tok = ''struct'' then
               modifiers_loop (strip (drop (length tok) type_str)) is_c pls bits
             else if tok = ''const'' then
               modifiers_loop (strip (drop (length tok) type_str)) True pls bits
             else if tok = ''*'' then
               modifiers_loop (strip (drop (length tok) type_str)) False
                 (pls @ [\<lparr>pl_is_const = is_c, pl_is_fixed_array = False, pl_length = None\<rparr>]) bits
             else if tok = ''['' then
               (let len = takeWhile (\<lambda>c. c \<noteq> CHR '']'') (strip (drop (length tok) type_str)) in
                if len = [] then Inl TypeError
                else
                  modifiers_loop
                    (strip (drop (length len + 1) (strip (drop (length tok) type_str)))) is_c
                    (pls @ [\<lparr>pl_is_const = is_c, pl_is_fixed_array = True, pl_length = Some len\<rparr>])
                    bits)
             else
               (let bs = takeWhile is_digit (strip (drop (length tok) type_str)) in
                if bs = [] then Inl TypeError
                else
                  (case py_int 10 bs of
                     None \<Rightarrow> Inl ValueError
                   | Some b \<Rightarrow>
                       modifiers_loop
                         (strip (drop (length bs) (strip (drop (length tok) type_str)))) is_c pls
                         (Some b)))))"
  by pat_completeness auto
termination
proof (relation "measure (\<lambda>(type_str, is_c, pls, bits). length type_str)")
  show "wf (measure (\<lambda>(type_str, is_c, pls, bits). length type_str))" by simp
next
  fix type_str :: string and is_c :: bool and pls :: "pointer_level list" and bits :: "int option"
    and tok :: string
  assume ne: "type_str \<noteq> []" and m: "match_token type_str = Some tok"
  from m have "0 < length tok" using match_token_nonempty by auto
  with ne have less: "length (strip (drop (length tok) type_str)) < length type_str"
    by (rule length_strip_drop_less)
  {
    show "((strip (drop (length tok) type_str), is_c, pls, bits), type_str, is_c, pls, bits)
          \<in> measure (\<lambda>(type_str, is_c, pls, bits). length type_str)"
      using less by simp
  next
    show "((strip (drop (length tok) type_str), True, pls, bits), type_str, is_c, pls, bits)
          \<in> measure (\<lambda>(type_str, is_c, pls, bits). length type_str)"
      using less by simp
  next
    show "((strip (drop (length tok) type_str), False,
            pls @ [\<lparr>pl_is_const = is_c, pl_is_fixed_array = False, pl_length = None\<rparr>], bits),
           type_str, is_c, pls, bits)
          \<in> measure (\<lambda>(type_str, is_c, pls, bits). length type_str)"
      using less by simp
  next
    fix len :: string
    assume "len = takeWhile (\<lambda>c. c \<noteq> CHR '']'') (strip (drop (length tok) type_str))"
    have "length (strip (drop (length len + 1) (strip (drop (length tok) type_str))))
          \<le> length (strip (drop (length tok) type_str))"
      using length_strip_le [of "drop (length len + 1) (strip (drop (length tok) type_str))"]
      by simp
    with less show "((strip (drop (length len + 1) (strip (drop (length tok) type_str))), is_c,
            pls @ [\<lparr>pl_is_const = is_c, pl_is_fixed_array = True, pl_length = Some len\<rparr>], bits),
           type_str, is_c, pls, bits)
          \<in> measure (\<lambda>(type_str, is_c, pls, bits). length type_str)"
      by simp
  next
    fix bs :: string and b :: int
    have "length (strip (drop (length bs) (strip (drop (length tok) type_str))))
          \<le> length (strip (drop (length tok) type_str))"
      using length_strip_le [of "drop (length bs) (strip (drop (length tok) type_str))"]
      by simp
    with less show "((strip (drop (length bs) (strip (drop (length tok) type_str))), is_c, pls, Some b),
           type_str, is_c, pls, bits)
          \<in> measure (\<lambda>(type_str, is_c, pls, bits). length type_str)"
      by simp
  }
qed

declare modifiers_loop.simps [simp del]

text \<open>
  The declarator text: \<^verbatim>\<open>me.text\<close>, then for every child its own text (unless the
  child is \<^verbatim>\<open>type\<close>, \<^verbatim>\<open>name\<close> or \<^verbatim>\<open>comment\<close>) and its tail; stripped.
\<close>

definition child_text :: "element \<Rightarrow> string" where
  "child_text e =
     (case etext e of
        Some t \<Rightarrow> if tag e \<noteq> ''type'' \<and> tag e \<noteq> ''name'' \<and> tag e \<noteq> ''comment'' then t else []
      | None \<Rightarrow> [])
     @ (case tail e of Some t \<Rightarrow> t | None \<Rightarrow> [])"

definition declarator :: "element \<Rightarrow> string" where
  "declarator me =
     strip ((case etext me of Some t \<Rightarrow> t | None \<Rightarrow> []) @ concat (map child_text (children me)))"

text \<open>
  \<^verbatim>\<open>for i in range(len(dynamic_lengths))\<close>: level \<open>i\<close> gets length \<open>i\<close>.  More
  lengths than levels is an \<^verbatim>\<open>IndexError\<close>; a fixed array among them fails the assertion.
\<close>

fun assign_lengths :: "pointer_level list \<Rightarrow> string list \<Rightarrow> error + pointer_level list" where
  "assign_lengths pls [] = Inr pls"
| "assign_lengths [] (d # ds) = Inl IndexError"
| "assign_lengths (p # pls) (d # ds) =
     (if pl_is_fixed_array p then Inl AssertionError
      else (case assign_lengths pls ds of
              Inl e \<Rightarrow> Inl e
            | Inr pls' \<Rightarrow> Inr (p\<lparr>pl_length := Some d\<rparr> # pls')))"

definition parse_type_modifiers :: "element \<Rightarrow> error + (pointer_level list \<times> int option)" where
  "parse_type_modifiers me =
     (case modifiers_loop (declarator me) False [] None of
        Inl e \<Rightarrow> Inl e
      | Inr (pointer_levels, bits) \<Rightarrow>
          (let len_str = (case get me ''altlen'' of None \<Rightarrow> get me ''len'' | Some l \<Rightarrow> Some l);
               dynamic_lengths = (case len_str of None \<Rightarrow> [] | Some l \<Rightarrow> split (CHR '','') l)
           in (case assign_lengths pointer_levels dynamic_lengths of
                 Inl e \<Rightarrow> Inl e
               | Inr pls \<Rightarrow> Inr (pls, bits))))"

text \<open>\<^verbatim>\<open>x.name\<close> for a reference \<open>x\<close>: only objects have a name.\<close>

definition name_attr :: "heap \<Rightarrow> pyref \<Rightarrow> error + string" where
  "name_attr h r =
     (case r of
        Ref a \<Rightarrow> (case lookup h a of Some ob \<Rightarrow> Inr (name ob) | None \<Rightarrow> Inl AttributeError)
      | TypeRef n \<Rightarrow> Inr n
      | _ \<Rightarrow> Inl AttributeError)"

text \<open>\<^verbatim>\<open>TypeModifier.name\<close>: the class name around the name of the base type.\<close>

fun type_name :: "heap \<Rightarrow> vtype \<Rightarrow> error + string" where
  "type_name h (Leaf r) = name_attr h r"
| "type_name h (FixedArray t c l) =
     map_sum id (\<lambda>n. (if c then ''Const'' else []) @ ''FixedArray('' @ n @ '')'') (type_name h t)"
| "type_name h (DynamicArray t c l p) =
     map_sum id (\<lambda>n. (if c then ''Const'' else []) @ ''DynamicArray('' @ n @ '')'') (type_name h t)"
| "type_name h (NextPtr t c) =
     map_sum id (\<lambda>n. (if c then ''Const'' else []) @ ''NextPtr('' @ n @ '')'') (type_name h t)"
| "type_name h (Pointer t c) =
     map_sum id (\<lambda>n. (if c then ''Const'' else []) @ ''Pointer('' @ n @ '')'') (type_name h t)"

text \<open>
  One round of \<^verbatim>\<open>for ptr in reversed(pointer_levels)\<close> in
  \<^verbatim>\<open>parse_parameter_or_member\<close>: the level \<open>ptr\<close> wraps the type \<open>t\<close> built so far.
\<close>

definition wrap_level :: "heap \<Rightarrow> string \<Rightarrow> addr \<Rightarrow> pointer_level \<Rightarrow> vtype \<Rightarrow> error + vtype" where
  "wrap_level h nm par ptr t =
     (if pl_is_fixed_array ptr then
        (case pl_length ptr of
           None \<Rightarrow> Inl TypeError
         | Some l \<Rightarrow>
             Inr (FixedArray t (pl_is_const ptr)
                    (case py_int 10 l of Some i \<Rightarrow> IntV i | None \<Rightarrow> StrV l)))
      else
        (case pl_length ptr of
           Some l \<Rightarrow>
             if l = ''null-terminated'' then Inr (Leaf (TypeRef ''string''))
             else Inr (DynamicArray t (pl_is_const ptr) l par)
         | None \<Rightarrow>
             if type_name h t = Inr ''void'' \<and> nm = ''pNext'' then Inr (NextPtr t (pl_is_const ptr))
             else Inr (Pointer t (pl_is_const ptr))))"

fun wrap_levels ::
  "heap \<Rightarrow> string \<Rightarrow> addr \<Rightarrow> pointer_level list \<Rightarrow> vtype \<Rightarrow> error + vtype" where
  "wrap_levels h nm par [] t = Inr t"
| "wrap_levels h nm par (ptr # ptrs) t =
     (case wrap_level h nm par ptr t of
        Inl e \<Rightarrow> Inl e
      | Inr t' \<Rightarrow> wrap_levels h nm par ptrs t')"

text \<open>
  \<^verbatim>\<open>parse_parameter_or_member(registry, me, parent)\<close>; of the registry it reads
  \<open>aliases\<close>.  \<open>par\<close> is the address of the struct or command being built.
\<close>

definition parse_parameter_or_member ::
  "heap \<Rightarrow> pyref dict \<Rightarrow> element \<Rightarrow> addr \<Rightarrow> error + field" where
  "parse_parameter_or_member h aliases me par =
     (case (find me ''name'', find me ''type'') of
        (Some ne, Some te) \<Rightarrow>
          (case (etext ne, etext te) of
             (Some nm, Some type_text) \<Rightarrow>
               (case (case map_of aliases type_text of
                        None \<Rightarrow> Inr type_text
                      | Some al \<Rightarrow> name_attr h al) of
                  Inl e \<Rightarrow> Inl e
                | Inr base_type_name \<Rightarrow>
                    (case parse_type_modifiers me of
                       Inl e \<Rightarrow> Inl e
                     | Inr (pointer_levels, bits) \<Rightarrow>
                         (case wrap_levels h nm par (rev pointer_levels)
                                 (Leaf (TypeRef base_type_name)) of
                            Inl e \<Rightarrow> Inl e
                          | Inr t \<Rightarrow>
                              (let is_pointer = (pointer_levels \<noteq> []
                                      \<and> \<not> pl_is_fixed_array (hd pointer_levels));
                                   is_c = (pointer_levels \<noteq> [] \<and> pl_is_const (hd pointer_levels))
                               in Inr \<lparr>field_name = nm, field_type = t,
                                       is_optional = (get_default me ''optional'' [] = ''true''),
                                       is_output = (is_pointer \<and> \<not> is_c),
                                       bit_size = bits,
                                       field_values = split_nonempty (get_default me ''values'' [])\<rparr>))))
           | _ \<Rightarrow> Inl NoneName)
      | _ \<Rightarrow> Inl AttributeError)"

text \<open>\<^verbatim>\<open>[parse_parameter_or_member(registry, me, self) for me in ...]\<close>\<close>

fun parse_fields :: "heap \<Rightarrow> pyref dict \<Rightarrow> addr \<Rightarrow> element list \<Rightarrow> error + field list" where
  "parse_fields h aliases par [] = Inr []"
| "parse_fields h aliases par (me # mes) =
     (case parse_parameter_or_member h aliases me par of
        Inl e \<Rightarrow> Inl e
      | Inr f \<Rightarrow>
          (case parse_fields h aliases par mes of
             Inl e \<Rightarrow> Inl e
           | Inr fs \<Rightarrow> Inr (f # fs)))"

section \<open>Struct and Command\<close>

text \<open>
  \<^verbatim>\<open>Struct.__init__(self, registry, te)\<close>, for the new object's address \<open>self\<close>:
  \<open>extendedby\<close> starts empty and \<open>structextends\<close> holds names.
\<close>

definition Struct_init :: "heap \<Rightarrow> registry \<Rightarrow> element \<Rightarrow> addr \<Rightarrow> error + obj" where
  "Struct_init h reg te self =
     (case get te ''name'' of
        None \<Rightarrow> Inl KeyError
      | Some nm \<Rightarrow>
          (case parse_fields h (reg_aliases reg) self (findall te ''member'') of
             Inl e \<Rightarrow> Inl e
           | Inr ms \<Rightarrow>
               Inr (Struct nm [] False ms []
                      (map PyStr (split_nonempty (get_default te ''structextends'' []))))))"

text \<open>
  \<^verbatim>\<open>Command.__init__(self, registry, ce)\<close>, for the new object's address \<open>self\<close>.
  The attributes it sets are \<open>name\<close>, \<open>return_type\<close>, \<open>parameters\<close>, \<open>successcodes\<close>,
  \<open>extensions\<close>, \<open>feature\<close> and \<^verbatim>\<open>xml_node\<close>.
\<close>

definition Command_init :: "heap \<Rightarrow> registry \<Rightarrow> element \<Rightarrow> addr \<Rightarrow> error + obj" where
  "Command_init h reg ce self =
     (case (find2 ce ''proto'' ''name'', find2 ce ''proto'' ''type'') of
        (Some ne, Some te) \<Rightarrow>
          (case etext ne of
             None \<Rightarrow> Inl NoneName
           | Some nm \<Rightarrow>
               (case Option.bind (etext te) (map_of (reg_types reg)) of
                  None \<Rightarrow> Inl KeyError
                | Some rt \<Rightarrow>
                    (case parse_fields h (reg_aliases reg) self (findall ce ''param'') of
                       Inl e \<Rightarrow> Inl e
                     | Inr ps \<Rightarrow>
                         Inr (Command nm [] rt ps
                                (case get ce ''successcodes'' of
                                   Some sc \<Rightarrow> split (CHR '','') sc
                                 | None \<Rightarrow> [])
                                None))))
      | _ \<Rightarrow> Inl AttributeError)"

text \<open>
  The first loop of \<^verbatim>\<open>Registry.__parse_commands\<close>, over
  \<^verbatim>\<open>root.findall('commands/command')\<close>: an entry with \<^verbatim>\<open>alias\<close> binds its name to
  the object bound to the aliased name, any other entry builds a \<^verbatim>\<open>Command\<close>.  (The
  second loop of the function resolves parameter types and sets \<^verbatim>\<open>is_instance\<close>; it
  rebinds no key and renames no command.)
\<close>

fun parse_commands_loop :: "heap \<Rightarrow> registry \<Rightarrow> element list \<Rightarrow> error + (heap \<times> registry)" where
  "parse_commands_loop h reg [] = Inr (h, reg)"
| "parse_commands_loop h reg (ce # ces) =
     (case get ce ''alias'' of
        Some al \<Rightarrow>
          (case get ce ''name'' of
             None \<Rightarrow> Inl NoneName
           | Some nm \<Rightarrow>
               (case map_of (reg_commands reg) al of
                  None \<Rightarrow> Inl KeyError
                | Some c \<Rightarrow>
                    parse_commands_loop h
                      (reg\<lparr>reg_commands := AList.update nm c (reg_commands reg),
                           reg_aliases := AList.update nm (PyStr al) (reg_aliases reg)\<rparr>) ces))
      | None \<Rightarrow>
          (case Command_init h reg ce (length h) of
             Inl e \<Rightarrow> Inl e
           | Inr cmd \<Rightarrow>
               (case alloc h cmd of
                  (h', c) \<Rightarrow>
                    parse_commands_loop h'
                      (reg\<lparr>reg_commands := AList.update (name cmd) c (reg_commands reg)\<rparr>) ces)))"

section \<open>Struct extension links\<close>

text \<open>
  The last loop of \<^verbatim>\<open>Registry.__parse_types\<close>.  First the inner loop for one struct
  \<open>t\<close>: each name \<open>se\<close> is looked up in \<open>types\<close> and \<open>t\<close> is appended to the
  target's \<open>extendedby\<close> unless it is there already.  An entry that is no string is no
  key of \<open>types\<close>; a target that is no \<^verbatim>\<open>Struct\<close> has no \<open>extendedby\<close>.
\<close>

fun extend_targets :: "heap \<Rightarrow> addr dict \<Rightarrow> addr \<Rightarrow> pyref list \<Rightarrow> error + heap" where
  "extend_targets h types t [] = Inr h"
| "extend_targets h types t (se # ses) =
     (case se of
        PyStr s \<Rightarrow>
          (case map_of types s of
             None \<Rightarrow> Inl KeyError
           | Some et \<Rightarrow>
               (case lookup h et of
                  Some (Struct n x u ms eb sx) \<Rightarrow>
                    extend_targets
                      (if t \<in> set eb then h else h[et := Struct n x u ms (eb @ [t]) sx])
                      types t ses
                | _ \<Rightarrow> Inl AttributeError))
      | _ \<Rightarrow> Inl KeyError)"

text \<open>\<^verbatim>\<open>[self.types[se] for se in t.structextends]\<close>\<close>

fun type_refs :: "addr dict \<Rightarrow> pyref list \<Rightarrow> error + pyref list" where
  "type_refs types [] = Inr []"
| "type_refs types (se # ses) =
     (case se of
        PyStr s \<Rightarrow>
          (case map_of types s of
             None \<Rightarrow> Inl KeyError
           | Some et \<Rightarrow>
               (case type_refs types ses of
                  Inl e \<Rightarrow> Inl e
                | Inr rs \<Rightarrow> Inr (Ref et # rs)))
      | _ \<Rightarrow> Inl KeyError)"

text \<open>The outer loop, over \<^verbatim>\<open>self.types.values()\<close>.\<close>

fun structextends_loop :: "heap \<Rightarrow> addr dict \<Rightarrow> addr list \<Rightarrow> error + heap" where
  "structextends_loop h types [] = Inr h"
| "structextends_loop h types (t # ts) =
     (case lookup h t of
        Some (Struct n x u ms eb sx) \<Rightarrow>
          (case extend_targets h types t sx of
             Inl e \<Rightarrow> Inl e
           | Inr h1 \<Rightarrow>
               (case type_refs types sx of
                  Inl e \<Rightarrow> Inl e
                | Inr refs \<Rightarrow>
                    (case lookup h1 t of
                       Some (Struct n' x' u' ms' eb' sx') \<Rightarrow>
                         structextends_loop (h1[t := Struct n' x' u' ms' eb' refs]) types ts
                     | _ \<Rightarrow> Inl AttributeError)))
      | _ \<Rightarrow> structextends_loop h types ts)"

definition parse_types_structextends :: "heap \<Rightarrow> registry \<Rightarrow> error + heap" where
  "parse_types_structextends h reg =
     structextends_loop h (reg_types reg) (map snd (reg_types reg))"

section \<open>Filtering\<close>

text \<open>\<^verbatim>\<open>x.extensions\<close>: every \<^verbatim>\<open>Type\<close> and \<^verbatim>\<open>Command\<close> has the list.\<close>

definition extensions_attr :: "heap \<Rightarrow> addr \<Rightarrow> error + addr list" where
  "extensions_attr h a =
     (case lookup h a of
        None \<Rightarrow> Inl AttributeError
      | Some (Extension n k au su pl) \<Rightarrow> Inl AttributeError
      | Some ob \<Rightarrow> Inr (extensions ob))"

text \<open>\<^verbatim>\<open>len(extension_set.intersection(xs)) > 0\<close>\<close>

definition intersects :: "addr list \<Rightarrow> addr list \<Rightarrow> bool" where
  "intersects extension_set xs = list_ex (\<lambda>x. x \<in> set extension_set) xs"

text \<open>
  The test both filters apply to an entity with the extension list \<open>xs\<close>: it stays when
  the list is empty or meets the selected set.
\<close>

definition stays :: "addr list \<Rightarrow> addr list \<Rightarrow> bool" where
  "stays extension_set xs = (if xs \<noteq> [] then intersects extension_set xs else True)"

text \<open>The two list-rebuilding loops of \<^verbatim>\<open>__filter_type_by_extensions\<close> for a struct.\<close>

fun filter_extendedby :: "heap \<Rightarrow> addr list \<Rightarrow> addr list \<Rightarrow> error + addr list" where
  "filter_extendedby h es [] = Inr []"
| "filter_extendedby h es (eb # ebs) =
     (case extensions_attr h eb of
        Inl e \<Rightarrow> Inl e
      | Inr xs \<Rightarrow>
          (case filter_extendedby h es ebs of
             Inl e \<Rightarrow> Inl e
           | Inr r \<Rightarrow> Inr (if stays es xs then eb # r else r)))"

fun filter_structextends :: "heap \<Rightarrow> addr list \<Rightarrow> pyref list \<Rightarrow> error + pyref list" where
  "filter_structextends h es [] = Inr []"
| "filter_structextends h es (eb # ebs) =
     (case eb of
        Ref a \<Rightarrow>
          (case extensions_attr h a of
             Inl e \<Rightarrow> Inl e
           | Inr xs \<Rightarrow>
               (case filter_structextends h es ebs of
                  Inl e \<Rightarrow> Inl e
                | Inr r \<Rightarrow> Inr (if stays es xs then eb # r else r)))
      | _ \<Rightarrow> Inl AttributeError)"

text \<open>
  The enum loop of \<^verbatim>\<open>__filter_type_by_extensions\<close>, over \<^verbatim>\<open>list(t.values)\<close>: a
  value listed by extensions none of which is selected is deleted from \<^verbatim>\<open>t.values\<close>.
\<close>

fun prune_values :: "heap \<Rightarrow> addr list \<Rightarrow> addr dict \<Rightarrow> string list \<Rightarrow> error + addr dict" where
  "prune_values h es vals [] = Inr vals"
| "prune_values h es vals (en # ens) =
     (case map_of vals en of
        None \<Rightarrow> Inl KeyError
      | Some ev \<Rightarrow>
          (case extensions_attr h ev of
             Inl e \<Rightarrow> Inl e
           | Inr xs \<Rightarrow>
               prune_values h es (if stays es xs then vals else AList.delete en vals) ens))"

text \<open>
  \<^verbatim>\<open>Registry.__filter_type_by_extensions(self, t, extension_set)\<close>: the new store and
  the returned object, which is \<open>t\<close> itself in every branch.
\<close>

definition filter_type_by_extensions :: "heap \<Rightarrow> addr \<Rightarrow> addr list \<Rightarrow> error + (heap \<times> addr)" where
  "filter_type_by_extensions h t extension_set =
     (case lookup h t of
        Some (Struct n x u ms eb sx) \<Rightarrow>
          (case filter_extendedby h extension_set eb of
             Inl e \<Rightarrow> Inl e
           | Inr eb' \<Rightarrow>
               (case filter_structextends h extension_set sx of
                  Inl e \<Rightarrow> Inl e
                | Inr sx' \<Rightarrow> Inr (h[t := Struct n x u ms eb' sx'], t)))
      | Some (Enum n x vals bm bw) \<Rightarrow>
          (case prune_values h extension_set vals (map fst vals) of
             Inl e \<Rightarrow> Inl e
           | Inr vals' \<Rightarrow> Inr (h[t := Enum n x vals' bm bw], t))
      | _ \<Rightarrow> Inr (h, t))"

text \<open>
  The test of \<^verbatim>\<open>__select_extensions\<close> and \<^verbatim>\<open>__filter_type\<close> on one extension \<open>x\<close>.
  \<^verbatim>\<open>supported\<close> is a string, so \<^verbatim>\<open>x.supported in supported\<close> is a substring test;
  \<^verbatim>\<open>extension_authors\<close> may be \<^verbatim>\<open>None\<close>.
\<close>

definition extension_matches ::
  "heap \<Rightarrow> string list \<Rightarrow> string list option \<Rightarrow> string \<Rightarrow> addr \<Rightarrow> error + bool" where
  "extension_matches h platforms extension_authors supp x =
     (case lookup h x of
        Some (Extension n k au su pl) \<Rightarrow>
          Inr (pl \<in> set platforms \<and> str_in su supp \<and>
               (case extension_authors of None \<Rightarrow> True | Some as \<Rightarrow> au \<in> set as))
      | _ \<Rightarrow> Inl AttributeError)"

text \<open>\<^verbatim>\<open>for x in ev.extensions: if ...: enum.values[en] = ev; break\<close>\<close>

fun any_extension_matches ::
  "heap \<Rightarrow> string list \<Rightarrow> string list option \<Rightarrow> string \<Rightarrow> addr list \<Rightarrow> error + bool" where
  "any_extension_matches h platforms extension_authors supp [] = Inr False"
| "any_extension_matches h platforms extension_authors supp (x # xs) =
     (case extension_matches h platforms extension_authors supp x of
        Inl e \<Rightarrow> Inl e
      | Inr True \<Rightarrow> Inr True
      | Inr False \<Rightarrow> any_extension_matches h platforms extension_authors supp xs)"

text \<open>The loop of \<^verbatim>\<open>__filter_type\<close> over \<^verbatim>\<open>t.values.items()\<close>, filling the copy's map.\<close>

fun copy_values ::
  "heap \<Rightarrow> string list \<Rightarrow> string list option \<Rightarrow> string \<Rightarrow> addr dict \<Rightarrow> addr dict
     \<Rightarrow> error + addr dict" where
  "copy_values h platforms extension_authors supp new [] = Inr new"
| "copy_values h platforms extension_authors supp new ((en, ev) # items) =
     (case extensions_attr h ev of
        Inl e \<Rightarrow> Inl e
      | Inr xs \<Rightarrow>
          if xs \<noteq> [] then
            (case any_extension_matches h platforms extension_authors supp xs of
               Inl e \<Rightarrow> Inl e
             | Inr m \<Rightarrow>
                 copy_values h platforms extension_authors supp
                   (if m then AList.update en ev new else new) items)
          else if (case extension_authors of None \<Rightarrow> True | Some as \<Rightarrow> [] \<in> set as) then
            copy_values h platforms extension_authors supp (AList.update en ev new) items
          else copy_values h platforms extension_authors supp new items)"

text \<open>
  \<^verbatim>\<open>Registry.__filter_type(self, t, platforms, extension_authors, supported)\<close>: for an
  enum, a \<^verbatim>\<open>copy.copy\<close> with a map of its own; the original object is not written.  No
  function of the loader calls it.
\<close>

definition filter_type ::
  "heap \<Rightarrow> addr \<Rightarrow> string list \<Rightarrow> string list option \<Rightarrow> string \<Rightarrow> error + (heap \<times> addr)" where
  "filter_type h t platforms extension_authors supp =
     (case lookup h t of
        Some (Enum n x vals bm bw) \<Rightarrow>
          (case copy_values h platforms extension_authors supp [] vals of
             Inl e \<Rightarrow> Inl e
           | Inr vals' \<Rightarrow> Inr (alloc h (Enum n x vals' bm bw)))
      | _ \<Rightarrow> Inr (h, t))"





section \<open>resolve\_aliases\<close>

text \<open>
  The dictionary comprehension of \<^verbatim>\<open>resolve_aliases\<close>: the result so far and the
  items still to come.  \<^verbatim>\<open>is_base_type_alias\<close> is read only for a \<^verbatim>\<open>TypeAlias\<close>.
\<close>

fun resolve_aliases_loop ::
  "heap \<Rightarrow> bool \<Rightarrow> addr dict \<Rightarrow> addr dict \<Rightarrow> (error + addr dict) option" where
  "resolve_aliases_loop h rb acc [] = Some (Inr acc)"
| "resolve_aliases_loop h rb acc ((key, v) # items) =
     (case lookup h v of
        None \<Rightarrow> Some (Inl AttributeError)
      | Some ob \<Rightarrow>
          if is_TypeAlias ob then
            (case is_base_type_alias h v of
               None \<Rightarrow> None
             | Some b \<Rightarrow>
                 if b \<and> \<not> rb then resolve_aliases_loop h rb (AList.update (name ob) v acc) items
                 else resolve_aliases_loop h rb acc items)
          else resolve_aliases_loop h rb (AList.update (name ob) v acc) items)"

definition resolve_aliases :: "heap \<Rightarrow> addr dict \<Rightarrow> bool \<Rightarrow> (error + addr dict) option" where
  "resolve_aliases h aliased resolve_base_type_aliases =
     resolve_aliases_loop h resolve_base_type_aliases [] aliased"

section \<open>Notions the properties are stated with\<close>

text \<open>
  The alias graph of a store: an edge from every \<^verbatim>\<open>TypeAlias\<close> to the object its
  \<open>alias\<close> field refers to.
\<close>

definition alias_rel :: "heap \<Rightarrow> (addr \<times> addr) set" where
  "alias_rel h = {(a, b). a < length h \<and> is_TypeAlias (h ! a) \<and> ta_alias (h ! a) = Ref b}"

text \<open>
  Three ways a handle's parent chain can run.  \<open>chain_reaches_instance\<close>: somewhere up
  the chain, the handle itself included, stands \<^verbatim>\<open>VkInstance\<close>.  \<open>instance_first\<close>:
  \<^verbatim>\<open>VkInstance\<close> stands there before any \<^verbatim>\<open>VkDevice\<close> or \<^verbatim>\<open>VkSwapchainKHR\<close>.
  \<open>device_first\<close>: \<^verbatim>\<open>VkDevice\<close> or \<^verbatim>\<open>VkSwapchainKHR\<close> stands there before any
  \<^verbatim>\<open>VkInstance\<close>.
\<close>

inductive chain_reaches_instance :: "heap \<Rightarrow> addr \<Rightarrow> bool" for h :: heap where
  here: "lookup h a = Some (Handle ''VkInstance'' x d p) \<Longrightarrow> chain_reaches_instance h a"
| up: "lookup h a = Some (Handle n x d (Ref b)) \<Longrightarrow> chain_reaches_instance h b
       \<Longrightarrow> chain_reaches_instance h a"

inductive instance_first :: "heap \<Rightarrow> addr \<Rightarrow> bool" for h :: heap where
  here: "lookup h a = Some (Handle ''VkInstance'' x d p) \<Longrightarrow> instance_first h a"
| up: "lookup h a = Some (Handle n x d (Ref b)) \<Longrightarrow> n \<noteq> ''VkDevice'' \<Longrightarrow> n \<noteq> ''VkSwapchainKHR''
       \<Longrightarrow> instance_first h b \<Longrightarrow> instance_first h a"

inductive device_first :: "heap \<Rightarrow> addr \<Rightarrow> bool" for h :: heap where
  device: "lookup h a = Some (Handle ''VkDevice'' x d p) \<Longrightarrow> device_first h a"
| swapchain: "lookup h a = Some (Handle ''VkSwapchainKHR'' x d p) \<Longrightarrow> device_first h a"
| up: "lookup h a = Some (Handle n x d (Ref b)) \<Longrightarrow> n \<noteq> ''VkInstance''
       \<Longrightarrow> device_first h b \<Longrightarrow> device_first h a"

section \<open>Example stores\<close>

text \<open>Two aliases in a row over a base type.\<close>

definition flags_heap :: heap where
  "flags_heap = [BaseType ''uint32_t'' [], TypeAlias ''VkFlags'' [] (Ref 0),
                 TypeAlias ''VkAccessFlags'' [] (Ref 1)]"

text \<open>The handles of the registry around \<^verbatim>\<open>VkDevice\<close>, with their declared parents.\<close>

definition device_heap :: heap where
  "device_heap = [Handle ''VkInstance'' [] True PyNone,
                  Handle ''VkPhysicalDevice'' [] True (Ref 0),
                  Handle ''VkDevice'' [] True (Ref 1),
                  Handle ''VkQueue'' [] True (Ref 2),
                  Handle ''VkSurfaceKHR'' [] False (Ref 0)]"

text \<open>A plain enum and a bitmask enum, and one extension entry for each.\<close>

definition result_heap :: heap where
  "result_heap = [Enum ''VkResult'' [] [] False 32, Enum ''VkQueueFlagBits'' [] [] True 32]"

definition result_types :: "addr dict" where
  "result_types = [(''VkResult'', 0), (''VkQueueFlagBits'', 1)]"


definition bitpos_enum :: element where
  "bitpos_enum = Element ''enum''
     [(''bitpos'', ''4''), (''extends'', ''VkQueueFlagBits''), (''name'', ''VK_QUEUE_PROTECTED_BIT'')]
     None None []"

text \<open>
  The command \<^verbatim>\<open>vkEnumerateDeviceLayerProperties\<close> as the registry declares it, with
  and without its \<^verbatim>\<open>errorcodes\<close> attribute.
\<close>

definition layer_properties_params :: "element list" where
  "layer_properties_params =
     [Element ''proto'' [] None None
        [Element ''type'' [] (Some ''VkResult'') (Some '' '') [],
         Element ''name'' [] (Some ''vkEnumerateDeviceLayerProperties'') None []],
      Element ''param'' [] None None
        [Element ''type'' [] (Some ''VkPhysicalDevice'') (Some '' '') [],
         Element ''name'' [] (Some ''physicalDevice'') None []],
      Element ''param'' [(''optional'', ''false,true'')] None None
        [Element ''type'' [] (Some ''uint32_t'') (Some ''* '') [],
         Element ''name'' [] (Some ''pPropertyCount'') None []]]"

definition layer_properties_command :: element where
  "layer_properties_command =
     Element ''command''
       [(''successcodes'', ''VK_SUCCESS,VK_INCOMPLETE''),
        (''errorcodes'', ''VK_ERROR_OUT_OF_HOST_MEMORY,VK_ERROR_OUT_OF_DEVICE_MEMORY'')]
       None None layer_properties_params"

definition layer_properties_command_bare :: element where
  "layer_properties_command_bare =
     Element ''command'' [(''successcodes'', ''VK_SUCCESS,VK_INCOMPLETE'')]
       None None layer_properties_params"

definition result_registry :: registry where
  "result_registry = \<lparr>reg_types = [(''VkResult'', 0)], reg_commands = [], reg_extensions = [],
     reg_aliases = [], reg_platforms = [], reg_constants = []\<rparr>"

text \<open>
  An enum with one value of its own and one contributed by the extension
  \<^verbatim>\<open>VK_EXT_debug_report\<close>, and the same store after the contributed value is pruned.
\<close>

definition debug_report_heap :: heap where
  "debug_report_heap =
     [Extension ''VK_EXT_debug_report'' 12 ''EXT'' ''vulkan'' [],
      EnumValue ''VK_SUCCESS'' [] (IntV 0) None,
      EnumValue ''VK_ERROR_VALIDATION_FAILED_EXT'' [0] (IntV 1000011001) None,
      Enum ''VkResult'' [] [(''VK_SUCCESS'', 1), (''VK_ERROR_VALIDATION_FAILED_EXT'', 2)] False 32]"



section \<open>Alias chains end (C9)\<close>

lemma finite_alias_rel: "finite (alias_rel h)"
proof -
  have "alias_rel h \<subseteq> (\<lambda>a. (a, case ta_alias (h ! a) of Ref b \<Rightarrow> b | _ \<Rightarrow> 0)) ` {..<length h}"
    by (auto simp: alias_rel_def image_iff)
  then show ?thesis by (rule finite_subset) simp
qed

lemma alias_loop_not_alias: "\<not> isinstance_TypeAlias h ta \<Longrightarrow> alias_loop h ta = Some ta"
  by (simp add: alias_loop.simps)

lemma alias_loop_step:
  "isinstance_TypeAlias h ta \<Longrightarrow> alias_loop h ta = alias_loop h (alias_of h ta)"
  by (subst alias_loop.simps) simp

lemma alias_loop_returns:
  assumes "acyclic (alias_rel h)"
  shows "\<exists>r. alias_loop h ta = Some r \<and> \<not> isinstance_TypeAlias h r"
proof (cases ta)
  case (Ref a0)
  have "wf ((alias_rel h)\<inverse>)"
    using finite_alias_rel assms by (rule finite_acyclic_wf_converse)
  then have "\<exists>r. alias_loop h (Ref a0) = Some r \<and> \<not> isinstance_TypeAlias h r"
  proof (induction a0 rule: wf_induct_rule)
    case (less a)
    show ?case
    proof (cases "isinstance_TypeAlias h (Ref a)")
      case False
      then show ?thesis by (auto simp: alias_loop_not_alias)
    next
      case True
      then have a: "a < length h" "is_TypeAlias (h ! a)"
        by (auto simp: isinstance_TypeAlias_def lookup_def split: if_splits)
      have step: "alias_loop h (Ref a) = alias_loop h (ta_alias (h ! a))"
        using alias_loop_step [OF True] by (simp add: alias_of_def)
      show ?thesis
      proof (cases "\<exists>b. ta_alias (h ! a) = Ref b")
        case True
        then obtain b where b: "ta_alias (h ! a) = Ref b" by blast
        with a have "(b, a) \<in> (alias_rel h)\<inverse>" by (simp add: alias_rel_def)
        then obtain r where "alias_loop h (Ref b) = Some r" "\<not> isinstance_TypeAlias h r"
          using less.IH by blast
        with step b show ?thesis by simp
      next
        case False
        then have "\<not> isinstance_TypeAlias h (ta_alias (h ! a))"
          by (cases "ta_alias (h ! a)") (simp_all add: isinstance_TypeAlias_def)
        with step show ?thesis by (auto simp: alias_loop_not_alias)
      qed
    qed
  qed
  with Ref show ?thesis by simp
qed (auto simp: alias_loop_not_alias isinstance_TypeAlias_def)

lemma acyclic_if_older: "(\<And>a b. (a, b) \<in> alias_rel h \<Longrightarrow> b < a) \<Longrightarrow> acyclic (alias_rel h)"
proof -
  assume older: "\<And>a b. (a, b) \<in> alias_rel h \<Longrightarrow> b < a"
  have "alias_rel h \<subseteq> less_than\<inverse>" using older by auto
  moreover have "acyclic (less_than\<inverse>)" by (simp add: wf_acyclic)
  ultimately show ?thesis by (rule acyclic_subset [rotated])
qed

lemma flags_heap_acyclic: "acyclic (alias_rel flags_heap)"
  by (rule acyclic_if_older) (auto simp: alias_rel_def flags_heap_def less_Suc_eq nth_Cons')

text \<open>
  C9.  In a store whose alias graph has no cycle, \<^verbatim>\<open>resolve_type\<close> returns for every
  \<^verbatim>\<open>TypeAlias\<close> (at any address \<open>self\<close>), and what it returns is no \<^verbatim>\<open>TypeAlias\<close>.
\<close>

theorem resolve_type_terminates:
  assumes "acyclic (alias_rel h)"
  shows "\<exists>r. resolve_type h self = Some r \<and> \<not> isinstance_TypeAlias h r"
  unfolding resolve_type_def using assms by (rule alias_loop_returns)

theorem resolve_type_terminates_witness:
  "acyclic (alias_rel flags_heap) \<and> resolve_type flags_heap 2 = Some (Ref 0)
   \<and> (\<exists>r. resolve_type flags_heap 2 = Some r \<and> \<not> isinstance_TypeAlias flags_heap r)"
proof -
  have "resolve_type flags_heap 2 = Some (Ref 0)"
    by (simp add: resolve_type_def alias_loop.simps isinstance_TypeAlias_def alias_of_def
        lookup_def flags_heap_def)
  with flags_heap_acyclic resolve_type_terminates [OF flags_heap_acyclic, of 2]
  show ?thesis by simp
qed

section \<open>Instance handles (C2)\<close>

lemma is_instance_handle_Handle:
  "lookup h a = Some (Handle n x d p) \<Longrightarrow>
   is_instance_handle h (Ref a) =
     (if n = ''VkDevice'' then Some (Inr False)
      else if n = ''VkInstance'' then Some (Inr True)
      else if n = ''VkSwapchainKHR'' then Some (Inr False)
      else is_instance_handle h p)"
  by (subst is_instance_handle.simps) simp

lemma instance_first_true: "instance_first h a \<Longrightarrow> is_instance_handle h (Ref a) = Some (Inr True)"
proof (induction rule: instance_first.induct)
  case (here a x d p)
  then show ?case by (simp add: is_instance_handle_Handle)
next
  case (up a n x d b)
  then show ?case by (simp add: is_instance_handle_Handle)
qed

lemma device_first_false: "device_first h a \<Longrightarrow> is_instance_handle h (Ref a) = Some (Inr False)"
proof (induction rule: device_first.induct)
  case (device a x d p)
  then show ?case by (simp add: is_instance_handle_Handle)
next
  case (swapchain a x d p)
  then show ?case by (simp add: is_instance_handle_Handle)
next
  case (up a n x d b)
  then show ?case by (simp add: is_instance_handle_Handle)
qed

lemma is_instance_handle_sound:
  assumes "is_instance_handle h r = Some res"
  shows "(res = Inr True \<longrightarrow> (\<exists>a. r = Ref a \<and> instance_first h a))
       \<and> (res = Inr False \<longrightarrow> (\<exists>a. r = Ref a \<and> device_first h a))"
proof (rule is_instance_handle.raw_induct [where P = "\<lambda>h r res.
      (res = Inr True \<longrightarrow> (\<exists>a. r = Ref a \<and> instance_first h a))
       \<and> (res = Inr False \<longrightarrow> (\<exists>a. r = Ref a \<and> device_first h a))", OF _ assms])
  fix f h r res
  assume IH: "\<And>h r res. f h r = Some res \<Longrightarrow>
      (res = Inr True \<longrightarrow> (\<exists>a. r = Ref a \<and> instance_first h a))
       \<and> (res = Inr False \<longrightarrow> (\<exists>a. r = Ref a \<and> device_first h a))"
    and eq: "(case r of
        Ref a \<Rightarrow>
          (case lookup h a of
             Some (Handle n x d p) \<Rightarrow>
               if n = ''VkDevice'' then Some (Inr False)
               else if n = ''VkInstance'' then Some (Inr True)
               else if n = ''VkSwapchainKHR'' then Some (Inr False)
               else f h p
           | _ \<Rightarrow> Some (Inl AttributeError))
      | _ \<Rightarrow> Some (Inl AttributeError)) = Some res"
  show "(res = Inr True \<longrightarrow> (\<exists>a. r = Ref a \<and> instance_first h a))
       \<and> (res = Inr False \<longrightarrow> (\<exists>a. r = Ref a \<and> device_first h a))"
  proof (cases r)
    case (Ref a)
    show ?thesis
    proof (cases "lookup h a")
      case None
      with Ref eq show ?thesis by auto
    next
      case (Some ob)
      show ?thesis
      proof (cases ob)
        case (Handle n x d p)
        note l = Some [unfolded Handle]
        show ?thesis
        proof (cases "n = ''VkDevice'' \<or> n = ''VkInstance'' \<or> n = ''VkSwapchainKHR''")
          case True
          with eq Ref l show ?thesis
            by (auto intro: instance_first.here device_first.device device_first.swapchain)
        next
          case False
          with eq Ref l have call: "f h p = Some res" by simp
          from IH [OF call] False l Ref show ?thesis
            by (auto intro: instance_first.up device_first.up)
        qed
      qed (use Ref Some eq in auto)
    qed
  qed (use eq in auto)
qed

lemma device_heap_lookup:
  "lookup device_heap 0 = Some (Handle ''VkInstance'' [] True PyNone)"
  "lookup device_heap 1 = Some (Handle ''VkPhysicalDevice'' [] True (Ref 0))"
  "lookup device_heap 2 = Some (Handle ''VkDevice'' [] True (Ref 1))"
  "lookup device_heap 3 = Some (Handle ''VkQueue'' [] True (Ref 2))"
  "lookup device_heap 4 = Some (Handle ''VkSurfaceKHR'' [] False (Ref 0))"
  by (simp_all add: lookup_def device_heap_def)

lemma device_heap_results:
  "is_instance_handle device_heap (Ref 0) = Some (Inr True)"
  "is_instance_handle device_heap (Ref 2) = Some (Inr False)"
  "is_instance_handle device_heap (Ref 3) = Some (Inr False)"
  "is_instance_handle device_heap (Ref 4) = Some (Inr True)"
proof -
  note l = device_heap_lookup
  show 0: "is_instance_handle device_heap (Ref 0) = Some (Inr True)"
    using is_instance_handle_Handle [OF l(1)] by simp
  show 2: "is_instance_handle device_heap (Ref 2) = Some (Inr False)"
    using is_instance_handle_Handle [OF l(3)] by simp
  show "is_instance_handle device_heap (Ref 3) = Some (Inr False)"
    using is_instance_handle_Handle [OF l(4)] 2 by simp
  show "is_instance_handle device_heap (Ref 4) = Some (Inr True)"
    using is_instance_handle_Handle [OF l(5)] 0 by simp
qed

text \<open>
  C2, as stated, fails: the parent chain of \<^verbatim>\<open>VkQueue\<close> reaches \<^verbatim>\<open>VkInstance\<close> (through
  \<^verbatim>\<open>VkDevice\<close> and \<^verbatim>\<open>VkPhysicalDevice\<close>) and \<^verbatim>\<open>VkQueue\<close> is not \<^verbatim>\<open>VkSwapchainKHR\<close>,
  yet \<^verbatim>\<open>is_instance_handle\<close> is false for it.
\<close>

theorem is_instance_handle_counterexample:
  "chain_reaches_instance device_heap 3 \<and> name (device_heap ! 3) = ''VkQueue''
   \<and> is_instance_handle device_heap (Ref 3) = Some (Inr False)"
proof -
  note l = device_heap_lookup
  have "chain_reaches_instance device_heap 0" using l(1) by (rule chain_reaches_instance.here)
  with l(2) have "chain_reaches_instance device_heap 1" by (rule chain_reaches_instance.up)
  with l(3) have "chain_reaches_instance device_heap 2" by (rule chain_reaches_instance.up)
  with l(4) have "chain_reaches_instance device_heap 3" by (rule chain_reaches_instance.up)
  moreover have "name (device_heap ! 3) = ''VkQueue''" by (simp add: device_heap_def)
  ultimately show ?thesis using device_heap_results(3) by blast
qed

text \<open>
  C2, amended.  \<^verbatim>\<open>is_instance_handle\<close> returns true exactly for the handles whose parent
  chain, from the handle itself upwards, comes to \<^verbatim>\<open>VkInstance\<close> before it comes to
  \<^verbatim>\<open>VkDevice\<close> or \<^verbatim>\<open>VkSwapchainKHR\<close>; it returns false exactly for those whose chain
  comes to \<^verbatim>\<open>VkDevice\<close> or \<^verbatim>\<open>VkSwapchainKHR\<close> first.
\<close>

theorem is_instance_handle_instance_first:
  "(is_instance_handle h (Ref a) = Some (Inr True) \<longleftrightarrow> instance_first h a)
   \<and> (is_instance_handle h (Ref a) = Some (Inr False) \<longleftrightarrow> device_first h a)"
proof (intro conjI iffI)
  assume "is_instance_handle h (Ref a) = Some (Inr True)"
  from is_instance_handle_sound [OF this] show "instance_first h a" by simp
next
  assume "is_instance_handle h (Ref a) = Some (Inr False)"
  from is_instance_handle_sound [OF this] show "device_first h a" by simp
qed (rule instance_first_true, assumption, rule device_first_false, assumption)

theorem is_instance_handle_instance_first_witness:
  "is_instance_handle device_heap (Ref 4) = Some (Inr True) \<and> instance_first device_heap 4
   \<and> is_instance_handle device_heap (Ref 3) = Some (Inr False) \<and> device_first device_heap 3"
proof -
  from is_instance_handle_instance_first [of device_heap 4] device_heap_results(4)
  have "instance_first device_heap 4" by blast
  moreover from is_instance_handle_instance_first [of device_heap 3] device_heap_results(3)
  have "device_first device_heap 3" by blast
  ultimately show ?thesis using device_heap_results by blast
qed

section \<open>Values of extension enums (C7)\<close>




lemma lookup_after_set:
  assumes "enum < length h"
  shows "lookup ((h @ [ob])[enum := e]) enum = Some e"
    and "lookup ((h @ [ob])[enum := e]) (length h) = Some ob"
  using assms by (simp_all add: lookup_def nth_list_update nth_append)




lemma bitpos_enum_run:
  "parse_enum_extend result_heap result_types bitpos_enum 12 =
     Inr ([Enum ''VkResult'' [] [] False 32,
           Enum ''VkQueueFlagBits'' [] [(''VK_QUEUE_PROTECTED_BIT'', 2)] True 32,
           EnumValue ''VK_QUEUE_PROTECTED_BIT'' [] (IntV 16) None], 2)"
  by code_simp


section \<open>Commands carry no error codes (C4)\<close>

lemma Command_init_attrib:
  "map_of at ''successcodes'' = map_of at' ''successcodes'' \<Longrightarrow>
   Command_init h reg (Element tg at tx ta ch) self = Command_init h reg (Element tg at' tx ta ch) self"
proof -
  assume sc: "map_of at ''successcodes'' = map_of at' ''successcodes''"
  have a: "findall (Element tg at tx ta ch) = findall (Element tg at' tx ta ch)"
    by (simp add: findall_def fun_eq_iff)
  have b: "find2 (Element tg at tx ta ch) = find2 (Element tg at' tx ta ch)"
    by (simp add: find2_def a fun_eq_iff)
  have c: "get (Element tg at tx ta ch) ''successcodes'' = get (Element tg at' tx ta ch) ''successcodes''"
    using sc by (simp add: get_def)
  show ?thesis unfolding Command_init_def a b c by (rule refl)
qed

lemma layer_properties_run:
  "Command_init [BaseType ''VkResult'' []] result_registry layer_properties_command 1 =
     Inr (Command ''vkEnumerateDeviceLayerProperties'' [] 0
            [\<lparr>field_name = ''physicalDevice'', field_type = Leaf (TypeRef ''VkPhysicalDevice''),
               is_optional = False, is_output = False, bit_size = None, field_values = []\<rparr>,
             \<lparr>field_name = ''pPropertyCount'',
               field_type = Pointer (Leaf (TypeRef ''uint32_t'')) False,
               is_optional = False, is_output = True, bit_size = None, field_values = []\<rparr>]
            [''VK_SUCCESS'', ''VK_INCOMPLETE''] None)"
  by code_simp

text \<open>
  C4.  \<^verbatim>\<open>Command.__init__\<close> reads \<^verbatim>\<open>successcodes\<close> and never \<^verbatim>\<open>errorcodes\<close>: the
  command built from the element with the attribute is the command built from the element
  without it, and it has no error codes (the class has no such attribute; the test
  \<^verbatim>\<open>TestXmlNodes\<close> reads \<^verbatim>\<open>.errorcodes\<close> of this very command).
\<close>

theorem Command_init_drops_errorcodes:
  "get layer_properties_command ''errorcodes''
     = Some ''VK_ERROR_OUT_OF_HOST_MEMORY,VK_ERROR_OUT_OF_DEVICE_MEMORY''
   \<and> get layer_properties_command_bare ''errorcodes'' = None
   \<and> Command_init [BaseType ''VkResult'' []] result_registry layer_properties_command 1
     = Command_init [BaseType ''VkResult'' []] result_registry layer_properties_command_bare 1
   \<and> Command_init [BaseType ''VkResult'' []] result_registry layer_properties_command 1 =
     Inr (Command ''vkEnumerateDeviceLayerProperties'' [] 0
            [\<lparr>field_name = ''physicalDevice'', field_type = Leaf (TypeRef ''VkPhysicalDevice''),
               is_optional = False, is_output = False, bit_size = None, field_values = []\<rparr>,
             \<lparr>field_name = ''pPropertyCount'',
               field_type = Pointer (Leaf (TypeRef ''uint32_t'')) False,
               is_optional = False, is_output = True, bit_size = None, field_values = []\<rparr>]
            [''VK_SUCCESS'', ''VK_INCOMPLETE''] None)"
proof -
  have "Command_init [BaseType ''VkResult'' []] result_registry layer_properties_command 1
     = Command_init [BaseType ''VkResult'' []] result_registry layer_properties_command_bare 1"
    unfolding layer_properties_command_def layer_properties_command_bare_def
    by (rule Command_init_attrib) simp
  moreover have "get layer_properties_command ''errorcodes''
     = Some ''VK_ERROR_OUT_OF_HOST_MEMORY,VK_ERROR_OUT_OF_DEVICE_MEMORY''"
    by (simp add: get_def layer_properties_command_def)
  moreover have "get layer_properties_command_bare ''errorcodes'' = None"
    by (simp add: get_def layer_properties_command_bare_def)
  ultimately show ?thesis using layer_properties_run by simp
qed

section \<open>Enum filtering writes the registered enum (C1)\<close>


lemma filter_type_run:
  "filter_type debug_report_heap 3 [''''] (Some ['''', ''KHR'']) ''vulkan'' =
     Inr (debug_report_heap @ [Enum ''VkResult'' [] [(''VK_SUCCESS'', 1)] False 32], 4)"
  by code_simp


text \<open>
  In general \<^verbatim>\<open>__filter_type_by_extensions\<close> returns its argument and adds no object,
  while the unused \<^verbatim>\<open>__filter_type\<close> leaves every object of the store as it was.
\<close>

lemma filter_type_by_extensions_same_object:
  assumes "filter_type_by_extensions h t es = Inr (h', t')"
  shows "t' = t \<and> length h' = length h"
  using assms
  by (auto simp: filter_type_by_extensions_def split: option.splits obj.splits sum.splits)

lemma filter_type_keeps_original:
  assumes "filter_type h t platforms authors supp = Inr (h', t')" and "a < length h"
  shows "lookup h' a = lookup h a"
  using assms
  by (auto simp: filter_type_def alloc_def lookup_def nth_append split: option.splits obj.splits sum.splits)

end
